theory Spec2Isabelle
  imports Main "HOL-Library.Sublist" "HOL-Library.Word"
begin

section \<open>The Lead list view's "Create Segment" action\<close>

text \<open>
  The source is one file, \<^verbatim>\<open>crm_override/public/js/lead_list.js\<close>. Its \<^verbatim>\<open>onload\<close> hook
  registers one entry of the list view's actions menu. The handler of that entry reads the
  checked rows, opens a prompt, and the prompt's submit callback issues one remote call
  whose response callback shows a message and refreshes the list.

  The embedding keeps the three nested functions of the source as three definitions. What
  a function does to the host (message boxes, the prompt, the remote call, the refresh) is
  the list of effects it returns, in program order; a callback handed to the host travels
  inside the effect that hands it over. A callback runs later than the function that made
  it, so it takes the list view as it is when it runs.
\<close>

subsection \<open>JavaScript values\<close>

text \<open>
  A number is an integer from \<open>- 2^53\<close> to \<open>2^53 - 1\<close>, held as a signed 54-bit word and read
  with \<open>sint\<close>: each of them is a double that JavaScript holds exactly and prints in plain
  decimal digits. The source does no arithmetic, so a word never wraps. Fractions, NaN and
  numbers of larger magnitude are outside the model.
\<close>

datatype jsval =
    JUndefined
  | JNull
  | JBool bool
  | JNum "54 word"
  | JStr string
  | JArr "jsval list"
  | JObj "(string \<times> jsval) list"

type_synonym jsobj = "(string \<times> jsval) list"

text \<open>The one exception the source can raise: reading a property of undefined or null.\<close>

datatype error = TypeError

text \<open>
  An object is the list of its properties; where a key stands twice, the first pair is the
  property. \<^verbatim>\<open>o.k\<close> on an object is the value stored under the key, undefined when there
  is none.
\<close>

definition obj_get :: "jsobj \<Rightarrow> string \<Rightarrow> jsval" where
  "obj_get obj k = (case map_of obj k of None \<Rightarrow> JUndefined | Some v \<Rightarrow> v)"

text \<open>
  \<^verbatim>\<open>v.k\<close> on any value. Undefined and null throw; an object is looked up; the other values
  are primitives or arrays, which carry none of the keys the source reads through a value.
\<close>

fun member :: "jsval \<Rightarrow> string \<Rightarrow> error + jsval" where
  "member JUndefined k = Inl TypeError"
| "member JNull k = Inl TypeError"
| "member (JObj fs) k = Inr (obj_get fs k)"
| "member v k = Inr JUndefined"

text \<open>Truthiness, as \<^verbatim>\<open>!r.exc\<close> tests it.\<close>

fun truthy :: "jsval \<Rightarrow> bool" where
  "truthy JUndefined = False"
| "truthy JNull = False"
| "truthy (JBool b) = b"
| "truthy (JNum n) = (n \<noteq> 0)"
| "truthy (JStr s) = (s \<noteq> [])"
| "truthy (JArr xs) = True"
| "truthy (JObj fs) = True"

subsection \<open>Text of a value\<close>

definition digit :: "int \<Rightarrow> char" where
  "digit d = char_of (48 + d)"

function show_digits :: "int \<Rightarrow> string" where
  "show_digits n =
     (if n < 10 then [digit n] else show_digits (n div 10) @ [digit (n mod 10)])"
  by pat_completeness auto
termination
  by (relation "measure nat") auto

declare show_digits.simps [simp del]

definition show_int :: "int \<Rightarrow> string" where
  "show_int i = (if i < 0 then CHR ''-'' # show_digits (- i) else show_digits i)"

fun join_comma :: "string list \<Rightarrow> string" where
  "join_comma [] = []"
| "join_comma [s] = s"
| "join_comma (s # t # ss) = s @ CHR '','' # join_comma (t # ss)"

text \<open>
  JavaScript's conversion of a value to a string. An integer of the range above is printed
  in decimal digits, with a minus sign when negative.
\<close>

fun to_text :: "jsval \<Rightarrow> string" where
  "to_text JUndefined = ''undefined''"
| "to_text JNull = ''null''"
| "to_text (JBool b) = (if b then ''true'' else ''false'')"
| "to_text (JNum n) = show_int (sint n)"
| "to_text (JStr s) = s"
| "to_text (JArr xs) =
     join_comma (map (\<lambda>x. if x = JUndefined \<or> x = JNull then [] else to_text x) xs)"
| "to_text (JObj fs) = ''[object Object]''"

subsection \<open>The host's translation function\<close>

text \<open>
  Modelled from the spec: the translation function \<^verbatim>\<open>__\<close>, which the source calls as
  \<^verbatim>\<open>__(txt)\<close> and \<^verbatim>\<open>__(txt, replace)\<close> and which belongs to the host framework. In the spec's
  scenario the template \<^verbatim>\<open>'Lead Segment {0} created successfully'\<close> is shown as "Lead Segment
  seg1 created successfully", and the notice is shown in the source's words: the text stands
  for itself (no catalogue is loaded for it), and a placeholder \<^verbatim>\<open>{k}\<close> becomes the text of
  \<^verbatim>\<open>replace[k]\<close>. Where \<^verbatim>\<open>replace[k]\<close> is undefined the host's formatter leaves the placeholder
  as it is. The templates of the source use \<^verbatim>\<open>{0}\<close> only; the model substitutes one-digit
  placeholders.
\<close>

definition translate :: "string \<Rightarrow> string" where
  "translate txt = txt"

definition is_digit :: "char \<Rightarrow> bool" where
  "is_digit c = (48 \<le> (of_char c :: nat) \<and> (of_char c :: nat) \<le> 57)"

definition nth_arg :: "jsval list \<Rightarrow> nat \<Rightarrow> jsval" where
  "nth_arg args i = (if i < length args then args ! i else JUndefined)"

fun format_js :: "string \<Rightarrow> jsval list \<Rightarrow> string" where
  "format_js (a # b # c # rest) args =
     (if a = CHR ''{'' \<and> is_digit b \<and> c = CHR ''}'' then
        (case nth_arg args ((of_char b :: nat) - 48) of
           JUndefined \<Rightarrow> [a, b, c]
         | v \<Rightarrow> to_text v) @ format_js rest args
      else a # format_js (b # c # rest) args)"
| "format_js s args = s"

definition translate_with :: "string \<Rightarrow> jsval list \<Rightarrow> string" where
  "translate_with txt replace = format_js (translate txt) replace"

subsection \<open>The list view and the effects on the host\<close>

text \<open>
  Of the list view the source reads one thing, the rows checked at the moment, and it reads
  them through \<^verbatim>\<open>get_checked_items()\<close>. The array that call returns is a value here: the
  source never writes to it.
\<close>

record listview =
  checked :: "jsobj list"

definition get_checked_items :: "listview \<Rightarrow> jsobj list" where
  "get_checked_items lv = checked lv"

datatype effect =
    Msgprint jsval
  | Prompt "jsobj list" "listview \<Rightarrow> jsobj \<Rightarrow> effect list" string string
  | Call string jsobj "listview \<Rightarrow> jsobj \<Rightarrow> error + effect list"
  | Refresh

subsection \<open>The three functions of the source\<close>

text \<open>\<^verbatim>\<open>callback: function(r) { if (!r.exc) { frappe.msgprint({...}); listview.refresh(); } }\<close>\<close>

definition callback :: "listview \<Rightarrow> jsobj \<Rightarrow> error + effect list" where
  "callback listview r =
     (if \<not> truthy (obj_get r ''exc'') then
        (case member (obj_get r ''message'') ''segmentname'' of
           Inl e \<Rightarrow> Inl e
         | Inr segmentname \<Rightarrow>
             Inr [Msgprint (JObj
                    [(''title'', JStr (translate ''Success'')),
                     (''indicator'', JStr ''green''),
                     (''message'', JStr (translate_with
                        ''Lead Segment {0} created successfully'' [segmentname]))]),
                  Refresh])
      else Inr [])"

text \<open>\<^verbatim>\<open>(values) => { frappe.call({method: ..., args: {...}, callback: ...}) }\<close>, closed over \<^verbatim>\<open>selected\<close>.\<close>

definition on_submit :: "jsobj list \<Rightarrow> listview \<Rightarrow> jsobj \<Rightarrow> effect list" where
  "on_submit selected listview vals =
     [Call ''crm_override.crm_override.api.create_lead_segment''
        [(''segmentname'', obj_get vals ''segmentname''),
         (''lead_names'', JArr (map (\<lambda>lead. obj_get lead ''name'') selected)),
         (''description'', obj_get vals ''description'')]
        callback]"

definition prompt_fields :: "jsobj list" where
  "prompt_fields =
     [[(''label'', JStr (translate ''Segment Name'')),
       (''fieldname'', JStr ''segmentname''),
       (''fieldtype'', JStr ''Data''),
       (''reqd'', JNum 1)],
      [(''label'', JStr (translate ''Description'')),
       (''fieldname'', JStr ''description''),
       (''fieldtype'', JStr ''Small Text'')]]"

text \<open>The handler that \<^verbatim>\<open>onload\<close> registers under the label \<^verbatim>\<open>__('Create Segment')\<close>.\<close>

definition create_segment :: "listview \<Rightarrow> effect list" where
  "create_segment listview =
     (let selected = get_checked_items listview in
      if length selected = 0 then
        [Msgprint (JStr (translate ''Please select at least one lead.''))]
      else
        [Prompt prompt_fields (on_submit selected)
           (translate ''Create Lead Segment'') (translate ''Create'')])"

definition onload :: "(string \<times> (listview \<Rightarrow> effect list)) list" where
  "onload = [(translate ''Create Segment'', create_segment)]"

subsection \<open>Reading a list of effects\<close>

fun remote_calls :: "effect list \<Rightarrow> (string \<times> jsobj) list" where
  "remote_calls [] = []"
| "remote_calls (Call m a k # es) = (m, a) # remote_calls es"
| "remote_calls (e # es) = remote_calls es"

fun prompts :: "effect list \<Rightarrow> (jsobj list \<times> string \<times> string) list" where
  "prompts [] = []"
| "prompts (Prompt fs cb t l # es) = (fs, t, l) # prompts es"
| "prompts (e # es) = prompts es"

text \<open>
  What the submit callback of the prompt does, when the action ran on the list view
  \<open>lv\<close> and the callback runs with \<open>vals\<close> on the list view \<open>lv'\<close> of that later moment.
  With no prompt open there is no callback to run.
\<close>

definition submit_effects :: "listview \<Rightarrow> listview \<Rightarrow> jsobj \<Rightarrow> effect list" where
  "submit_effects lv lv' vals =
     (case create_segment lv of
        [Prompt fs cb t l] \<Rightarrow> cb lv' vals
      | _ \<Rightarrow> [])"

subsection \<open>The form layer of the prompt\<close>

text \<open>
  Modelled from the spec: what counts as a field left blank. The form layer behind
  \<^verbatim>\<open>frappe.prompt\<close> is the host framework's, and no file of this repository contains it.
  The spec calls the segment name "required, non-empty" and speaks of a required field
  "left blank": nothing was entered, or the empty text.
\<close>

definition blank :: "jsval \<Rightarrow> bool" where
  "blank v = (v = JUndefined \<or> v = JNull \<or> v = JStr [])"

datatype submission = No_prompt | Rejected | Submitted "effect list"

text \<open>
  Modelled from the spec: the submission of the prompt by the form layer, which is the host
  framework's and absent from the source. The spec: "A required segment name left blank
  must be rejected by the form layer before any remote call is attempted", and the form has
  "two fields (required short text, optional long text)". So the user's entries reach the
  prompt's callback unless a field that the prompt declares with a truthy \<^verbatim>\<open>reqd\<close> is blank
  among them; a rejected submission runs nothing of the source.
\<close>

fun prompt_submit :: "effect list \<Rightarrow> listview \<Rightarrow> jsobj \<Rightarrow> submission" where
  "prompt_submit [Prompt fs cb t l] lv' entries =
     (if list_ex (\<lambda>f. truthy (obj_get f ''reqd'') \<and>
                      (case obj_get f ''fieldname'' of
                         JStr k \<Rightarrow> blank (obj_get entries k)
                       | _ \<Rightarrow> False)) fs
      then Rejected
      else Submitted (cb lv' entries))"
| "prompt_submit es lv' entries = No_prompt"

fun submitted_effects :: "submission \<Rightarrow> effect list" where
  "submitted_effects (Submitted es) = es"
| "submitted_effects s = []"

section \<open>Properties\<close>

lemma onload_menu_item: "onload = [(''Create Segment'', create_segment)]"
  by (simp add: onload_def translate_def)

lemma create_segment_nonempty:
  "get_checked_items lv \<noteq> [] \<Longrightarrow>
   create_segment lv =
     [Prompt prompt_fields (on_submit (get_checked_items lv)) ''Create Lead Segment'' ''Create'']"
  by (simp add: create_segment_def translate_def)

lemma submit_effects_nonempty:
  "get_checked_items lv \<noteq> [] \<Longrightarrow>
   submit_effects lv lv' vals = on_submit (get_checked_items lv) lv' vals"
  by (simp add: submit_effects_def create_segment_nonempty)

lemma submit_effects_empty:
  "get_checked_items lv = [] \<Longrightarrow> submit_effects lv lv' vals = []"
  by (simp add: submit_effects_def create_segment_def)

text \<open>
  C2. When the action is invoked with nothing checked, the only thing it does is show the
  notice "Please select at least one lead.": it opens no prompt and issues no remote call,
  and there is no submit callback that could issue one later.
\<close>

theorem empty_selection_only_notice:
  "get_checked_items lv = [] \<Longrightarrow>
   create_segment lv = [Msgprint (JStr ''Please select at least one lead.'')]
   \<and> prompts (create_segment lv) = []
   \<and> remote_calls (create_segment lv) = []
   \<and> remote_calls (submit_effects lv lv' vals) = []"
  by (simp add: create_segment_def translate_def submit_effects_def)

theorem empty_selection_only_notice_witness:
  "get_checked_items \<lparr>checked = []\<rparr> = []
   \<and> create_segment \<lparr>checked = []\<rparr> = [Msgprint (JStr ''Please select at least one lead.'')]
   \<and> prompts (create_segment \<lparr>checked = []\<rparr>) = []
   \<and> remote_calls (create_segment \<lparr>checked = []\<rparr>) = []
   \<and> remote_calls (submit_effects \<lparr>checked = []\<rparr> \<lparr>checked = [[(''name'', JStr ''L1'')]]\<rparr>
        [(''segmentname'', JStr ''seg1'')]) = []"
  using empty_selection_only_notice
    [of "\<lparr>checked = []\<rparr>" "\<lparr>checked = [[(''name'', JStr ''L1'')]]\<rparr>" "[(''segmentname'', JStr ''seg1'')]"]
  by (simp add: get_checked_items_def)

subsection \<open>The response callback\<close>

lemma format_segment_message:
  "v \<noteq> JUndefined \<Longrightarrow>
   translate_with ''Lead Segment {0} created successfully'' [v] =
     ''Lead Segment '' @ to_text v @ '' created successfully''"
  by (cases v) (simp_all add: translate_with_def translate_def is_digit_def nth_arg_def)

lemma format_segment_message_undefined:
  "translate_with ''Lead Segment {0} created successfully'' [JUndefined] =
     ''Lead Segment {0} created successfully''"
  by (simp add: translate_with_def translate_def is_digit_def nth_arg_def)

lemma callback_error_response:
  "truthy (obj_get r ''exc'') \<Longrightarrow> callback lv r = Inr []"
  by (simp add: callback_def)

lemma callback_no_payload:
  "\<not> truthy (obj_get r ''exc'') \<Longrightarrow>
   obj_get r ''message'' = JUndefined \<or> obj_get r ''message'' = JNull \<Longrightarrow>
   callback lv r = Inl TypeError"
  by (auto simp: callback_def)

lemma callback_payload:
  "\<not> truthy (obj_get r ''exc'') \<Longrightarrow>
   member (obj_get r ''message'') ''segmentname'' = Inr v \<Longrightarrow>
   callback lv r =
     Inr [Msgprint (JObj
            [(''title'', JStr ''Success''),
             (''indicator'', JStr ''green''),
             (''message'', JStr (translate_with
                ''Lead Segment {0} created successfully'' [v]))]),
          Refresh]"
  by (simp add: callback_def translate_def)

lemma member_defined:
  "v \<noteq> JUndefined \<Longrightarrow> v \<noteq> JNull \<Longrightarrow> \<exists>w. member v k = Inr w"
  by (cases v) simp_all

text \<open>
  C1, as the claim states it, fails: the callback reads the field \<^verbatim>\<open>segmentname\<close> of the
  payload, never the field \<^verbatim>\<open>name\<close>. On the response of the spec's end-to-end scenario,
  whose payload is \<^verbatim>\<open>{name: "seg1"}\<close>, there is no exception, the payload holds "seg1"
  under \<^verbatim>\<open>name\<close>, and the message displayed is the template with its placeholder left in
  place, which does not contain "seg1".
\<close>

theorem confirmation_ignores_name_field:
  "\<not> truthy (obj_get [(''message'', JObj [(''name'', JStr ''seg1'')])] ''exc'')
   \<and> obj_get [(''message'', JObj [(''name'', JStr ''seg1'')])] ''message''
       = JObj [(''name'', JStr ''seg1'')]
   \<and> obj_get [(''name'', JStr ''seg1'')] ''name'' = JStr ''seg1''
   \<and> callback \<lparr>checked = []\<rparr> [(''message'', JObj [(''name'', JStr ''seg1'')])]
       = Inr [Msgprint (JObj
                [(''title'', JStr ''Success''),
                 (''indicator'', JStr ''green''),
                 (''message'', JStr ''Lead Segment {0} created successfully'')]),
              Refresh]
   \<and> \<not> sublist ''seg1'' ''Lead Segment {0} created successfully''"
proof -
  have "\<not> sublist ''seg1'' ''Lead Segment {0} created successfully''"
    by (simp add: sublist_Cons_right)
  moreover have "callback \<lparr>checked = []\<rparr> [(''message'', JObj [(''name'', JStr ''seg1'')])]
       = Inr [Msgprint (JObj
                [(''title'', JStr ''Success''),
                 (''indicator'', JStr ''green''),
                 (''message'', JStr ''Lead Segment {0} created successfully'')]),
              Refresh]"
    by (simp add: callback_def obj_get_def translate_def format_segment_message_undefined)
  ultimately show ?thesis
    by (simp add: obj_get_def)
qed

text \<open>
  C1, amended. For every response without an exception whose payload is an object that
  holds a string under the field \<^verbatim>\<open>segmentname\<close>, the callback displays the message
  "Lead Segment <that string> created successfully", which includes that exact string, and
  then refreshes the list.
\<close>

theorem confirmation_includes_segmentname:
  "\<not> truthy (obj_get r ''exc'') \<Longrightarrow>
   obj_get r ''message'' = JObj payload \<Longrightarrow>
   obj_get payload ''segmentname'' = JStr nm \<Longrightarrow>
   callback lv r =
     Inr [Msgprint (JObj
            [(''title'', JStr ''Success''),
             (''indicator'', JStr ''green''),
             (''message'', JStr (''Lead Segment '' @ nm @ '' created successfully''))]),
          Refresh]
   \<and> sublist nm (''Lead Segment '' @ nm @ '' created successfully'')"
proof -
  assume ok: "\<not> truthy (obj_get r ''exc'')"
    and msg: "obj_get r ''message'' = JObj payload"
    and nm: "obj_get payload ''segmentname'' = JStr nm"
  from msg nm have "member (obj_get r ''message'') ''segmentname'' = Inr (JStr nm)"
    by simp
  from callback_payload [OF ok this]
  have "callback lv r =
     Inr [Msgprint (JObj
            [(''title'', JStr ''Success''),
             (''indicator'', JStr ''green''),
             (''message'', JStr (''Lead Segment '' @ nm @ '' created successfully''))]),
          Refresh]"
    by (simp add: format_segment_message del: append.simps)
  moreover have "sublist nm (''Lead Segment '' @ nm @ '' created successfully'')"
    by (rule sublist_appendI)
  ultimately show ?thesis by blast
qed

theorem confirmation_includes_segmentname_witness:
  "\<not> truthy (obj_get [(''message'', JObj [(''name'', JStr ''seg1''), (''segmentname'', JStr ''seg1'')])] ''exc'')
   \<and> obj_get [(''message'', JObj [(''name'', JStr ''seg1''), (''segmentname'', JStr ''seg1'')])] ''message''
       = JObj [(''name'', JStr ''seg1''), (''segmentname'', JStr ''seg1'')]
   \<and> obj_get [(''name'', JStr ''seg1''), (''segmentname'', JStr ''seg1'')] ''segmentname'' = JStr ''seg1''
   \<and> callback \<lparr>checked = []\<rparr>
        [(''message'', JObj [(''name'', JStr ''seg1''), (''segmentname'', JStr ''seg1'')])]
       = Inr [Msgprint (JObj
                [(''title'', JStr ''Success''),
                 (''indicator'', JStr ''green''),
                 (''message'', JStr ''Lead Segment seg1 created successfully'')]),
              Refresh]
   \<and> sublist ''seg1'' ''Lead Segment seg1 created successfully''"
  using confirmation_includes_segmentname
    [of "[(''message'', JObj [(''name'', JStr ''seg1''), (''segmentname'', JStr ''seg1'')])]"
        "[(''name'', JStr ''seg1''), (''segmentname'', JStr ''seg1'')]"
        "''seg1''" "\<lparr>checked = []\<rparr>"]
  by (simp add: obj_get_def)

text \<open>
  C4. For every response that carries an exception (a truthy \<^verbatim>\<open>exc\<close>), the callback
  returns normally with no effect at all: it displays no message, so no success
  confirmation, and it does not refresh the list view.
\<close>

theorem error_response_shows_nothing:
  "truthy (obj_get r ''exc'') \<Longrightarrow> callback lv r = Inr []"
  by (rule callback_error_response)

theorem error_response_shows_nothing_witness:
  "truthy (obj_get [(''exc'', JStr ''ValidationError''),
                    (''message'', JObj [(''segmentname'', JStr ''seg1'')])] ''exc'')
   \<and> callback \<lparr>checked = []\<rparr>
        [(''exc'', JStr ''ValidationError''),
         (''message'', JObj [(''segmentname'', JStr ''seg1'')])] = Inr []"
  using error_response_shows_nothing
    [of "[(''exc'', JStr ''ValidationError''),
          (''message'', JObj [(''segmentname'', JStr ''seg1'')])]" "\<lparr>checked = []\<rparr>"]
  by (simp add: obj_get_def)

text \<open>
  C7, as the claim states it, fails. The handler's test of success is \<^verbatim>\<open>!r.exc\<close> alone. The
  response \<^verbatim>\<open>{}\<close> carries no exception and so enters the success branch, where reading
  \<^verbatim>\<open>r.message.segmentname\<close> throws before \<^verbatim>\<open>msgprint\<close> is called: the handler ends in the
  TypeError, having displayed no message and refreshed nothing.
\<close>

theorem success_branch_without_payload:
  "\<not> truthy (obj_get [] ''exc'')
   \<and> obj_get [] ''message'' = JUndefined
   \<and> callback \<lparr>checked = []\<rparr> [] = Inl TypeError"
  by (simp add: callback_def obj_get_def)

text \<open>
  C7, amended. For every response without an exception whose payload \<^verbatim>\<open>r.message\<close> is
  neither undefined nor null, the callback displays the green "Success" message and then
  refreshes the list view, in that order and doing nothing else. Whenever the callback
  refreshes, the response had no exception: the refresh is never reached on an error.
\<close>

theorem success_message_then_refresh:
  "(\<not> truthy (obj_get r ''exc'') \<and> obj_get r ''message'' \<noteq> JUndefined
      \<and> obj_get r ''message'' \<noteq> JNull \<longrightarrow>
      (\<exists>msg. callback lv r =
         Inr [Msgprint (JObj
                [(''title'', JStr ''Success''),
                 (''indicator'', JStr ''green''),
                 (''message'', JStr msg)]),
              Refresh]))
   \<and> (\<forall>es. callback lv r = Inr es \<and> Refresh \<in> set es \<longrightarrow> \<not> truthy (obj_get r ''exc''))"
proof (intro conjI impI allI)
  assume a: "\<not> truthy (obj_get r ''exc'') \<and> obj_get r ''message'' \<noteq> JUndefined
      \<and> obj_get r ''message'' \<noteq> JNull"
  then obtain w where "member (obj_get r ''message'') ''segmentname'' = Inr w"
    using member_defined by blast
  with a show "\<exists>msg. callback lv r =
         Inr [Msgprint (JObj
                [(''title'', JStr ''Success''),
                 (''indicator'', JStr ''green''),
                 (''message'', JStr msg)]),
              Refresh]"
    by (simp add: callback_payload)
next
  fix es
  assume b: "callback lv r = Inr es \<and> Refresh \<in> set es"
  show "\<not> truthy (obj_get r ''exc'')"
  proof
    assume "truthy (obj_get r ''exc'')"
    then have "callback lv r = Inr []" by (rule callback_error_response)
    with b show False by auto
  qed
qed

theorem success_message_then_refresh_witness:
  "\<not> truthy (obj_get [(''message'', JObj [(''segmentname'', JStr ''seg1'')])] ''exc'')
   \<and> obj_get [(''message'', JObj [(''segmentname'', JStr ''seg1'')])] ''message'' \<noteq> JUndefined
   \<and> obj_get [(''message'', JObj [(''segmentname'', JStr ''seg1'')])] ''message'' \<noteq> JNull
   \<and> callback \<lparr>checked = []\<rparr> [(''message'', JObj [(''segmentname'', JStr ''seg1'')])] =
         Inr [Msgprint (JObj
                [(''title'', JStr ''Success''),
                 (''indicator'', JStr ''green''),
                 (''message'', JStr ''Lead Segment seg1 created successfully'')]),
              Refresh]
   \<and> Refresh \<in> set [Msgprint (JObj
                [(''title'', JStr ''Success''),
                 (''indicator'', JStr ''green''),
                 (''message'', JStr ''Lead Segment seg1 created successfully'')]),
              Refresh]"
  using success_message_then_refresh
    [of "[(''message'', JObj [(''segmentname'', JStr ''seg1'')])]" "\<lparr>checked = []\<rparr>"]
  by (simp add: obj_get_def callback_def translate_def format_segment_message)

text \<open>
  C8. The callback reads \<^verbatim>\<open>r.message.segmentname\<close> with no guard on \<^verbatim>\<open>r.message\<close>. For every
  response without an exception whose \<^verbatim>\<open>message\<close> is missing or null, the read throws: the
  callback ends in the TypeError, having displayed nothing and refreshed nothing.
\<close>

theorem missing_payload_throws:
  "\<not> truthy (obj_get r ''exc'') \<Longrightarrow>
   obj_get r ''message'' = JUndefined \<or> obj_get r ''message'' = JNull \<Longrightarrow>
   callback lv r = Inl TypeError"
  by (rule callback_no_payload)

theorem missing_payload_throws_witness:
  "\<not> truthy (obj_get [] ''exc'')
   \<and> obj_get [] ''message'' = JUndefined
   \<and> callback \<lparr>checked = []\<rparr> [] = Inl TypeError
   \<and> \<not> truthy (obj_get [(''message'', JNull)] ''exc'')
   \<and> obj_get [(''message'', JNull)] ''message'' = JNull
   \<and> callback \<lparr>checked = []\<rparr> [(''message'', JNull)] = Inl TypeError"
  using missing_payload_throws [of "[]" "\<lparr>checked = []\<rparr>"]
    missing_payload_throws [of "[(''message'', JNull)]" "\<lparr>checked = []\<rparr>"]
  by (simp add: obj_get_def)

subsection \<open>The remote call\<close>

lemma remote_calls_submit:
  "get_checked_items lv \<noteq> [] \<Longrightarrow>
   remote_calls (submit_effects lv lv' vals) =
     [(''crm_override.crm_override.api.create_lead_segment'',
       [(''segmentname'', obj_get vals ''segmentname''),
        (''lead_names'', JArr (map (\<lambda>lead. obj_get lead ''name'') (get_checked_items lv))),
        (''description'', obj_get vals ''description'')])]"
  by (simp add: submit_effects_nonempty on_submit_def)

text \<open>
  C3. When the action ran on a non-empty selection, the submit callback issues exactly one
  remote call, and its \<^verbatim>\<open>lead_names\<close> argument is the array of the \<^verbatim>\<open>name\<close> fields of the
  rows that were checked, one entry per row, in the list view's order: nothing is added,
  dropped, reordered or deduplicated.
\<close>

theorem lead_names_are_selected_names:
  "get_checked_items lv \<noteq> [] \<Longrightarrow>
   map (\<lambda>(m, a). obj_get a ''lead_names'') (remote_calls (submit_effects lv lv' vals)) =
     [JArr (map (\<lambda>lead. obj_get lead ''name'') (get_checked_items lv))]"
  by (simp add: remote_calls_submit obj_get_def)

theorem lead_names_are_selected_names_witness:
  "get_checked_items
     \<lparr>checked = [[(''name'', JStr ''L2'')], [(''name'', JStr ''L1'')], [(''name'', JStr ''L2'')]]\<rparr> \<noteq> []
   \<and> map (\<lambda>(m, a). obj_get a ''lead_names'')
       (remote_calls (submit_effects
          \<lparr>checked = [[(''name'', JStr ''L2'')], [(''name'', JStr ''L1'')], [(''name'', JStr ''L2'')]]\<rparr>
          \<lparr>checked = []\<rparr>
          [(''segmentname'', JStr ''seg1'')])) =
     [JArr [JStr ''L2'', JStr ''L1'', JStr ''L2'']]"
  using lead_names_are_selected_names
    [of "\<lparr>checked = [[(''name'', JStr ''L2'')], [(''name'', JStr ''L1'')], [(''name'', JStr ''L2'')]]\<rparr>"
        "\<lparr>checked = []\<rparr>" "[(''segmentname'', JStr ''seg1'')]"]
  by (simp add: get_checked_items_def obj_get_def)

text \<open>
  C5. Every submission of the prompt issues exactly one remote call. Its method is the
  fixed name \<^verbatim>\<open>crm_override.crm_override.api.create_lead_segment\<close>, and its arguments are
  exactly three, in this order: \<^verbatim>\<open>segmentname\<close>, the form's segment name; \<^verbatim>\<open>lead_names\<close>, the
  array of the selected rows' names; \<^verbatim>\<open>description\<close>, the form's description, undefined
  when the form has none.
\<close>

theorem remote_call_contract:
  "get_checked_items lv \<noteq> [] \<Longrightarrow>
   remote_calls (submit_effects lv lv' vals) =
     [(''crm_override.crm_override.api.create_lead_segment'',
       [(''segmentname'', obj_get vals ''segmentname''),
        (''lead_names'', JArr (map (\<lambda>lead. obj_get lead ''name'') (get_checked_items lv))),
        (''description'', obj_get vals ''description'')])]
   \<and> map (\<lambda>(m, a). length a) (remote_calls (submit_effects lv lv' vals)) = [3]"
  by (simp add: remote_calls_submit)

theorem remote_call_contract_witness:
  "get_checked_items \<lparr>checked = [[(''name'', JStr ''id1'')], [(''name'', JStr ''id2'')]]\<rparr> \<noteq> []
   \<and> remote_calls (submit_effects
        \<lparr>checked = [[(''name'', JStr ''id1'')], [(''name'', JStr ''id2'')]]\<rparr>
        \<lparr>checked = [[(''name'', JStr ''id1'')], [(''name'', JStr ''id2'')]]\<rparr>
        [(''segmentname'', JStr ''seg1''), (''description'', JStr ''Test Segment'')]) =
     [(''crm_override.crm_override.api.create_lead_segment'',
       [(''segmentname'', JStr ''seg1''),
        (''lead_names'', JArr [JStr ''id1'', JStr ''id2'']),
        (''description'', JStr ''Test Segment'')])]
   \<and> map (\<lambda>(m, a). length a) (remote_calls (submit_effects
        \<lparr>checked = [[(''name'', JStr ''id1'')], [(''name'', JStr ''id2'')]]\<rparr>
        \<lparr>checked = [[(''name'', JStr ''id1'')], [(''name'', JStr ''id2'')]]\<rparr>
        [(''segmentname'', JStr ''seg1''), (''description'', JStr ''Test Segment'')])) = [3]"
  using remote_call_contract
    [of "\<lparr>checked = [[(''name'', JStr ''id1'')], [(''name'', JStr ''id2'')]]\<rparr>"
        "\<lparr>checked = [[(''name'', JStr ''id1'')], [(''name'', JStr ''id2'')]]\<rparr>"
        "[(''segmentname'', JStr ''seg1''), (''description'', JStr ''Test Segment'')]"]
  by (simp add: get_checked_items_def obj_get_def)

text \<open>
  C9. The handler reads the checked rows once, when the action is clicked, and the submit
  callback uses that reading. For two runs whose checked rows were equal at the click, the
  \<^verbatim>\<open>lead_names\<close> sent on submission are equal, whatever the list views look like when the
  two prompts are submitted and whatever was entered in the two forms.
\<close>

theorem selection_captured_at_click:
  "get_checked_items lv1 = get_checked_items lv2 \<Longrightarrow>
   map (\<lambda>(m, a). obj_get a ''lead_names'') (remote_calls (submit_effects lv1 lv1' vals1)) =
   map (\<lambda>(m, a). obj_get a ''lead_names'') (remote_calls (submit_effects lv2 lv2' vals2))"
proof (cases "get_checked_items lv1 = []")
  case True
  assume "get_checked_items lv1 = get_checked_items lv2"
  with True show ?thesis
    by (simp add: submit_effects_empty)
next
  case False
  assume "get_checked_items lv1 = get_checked_items lv2"
  with False show ?thesis
    by (simp add: remote_calls_submit obj_get_def)
qed

theorem selection_captured_at_click_witness:
  "get_checked_items \<lparr>checked = [[(''name'', JStr ''id1'')], [(''name'', JStr ''id2'')]]\<rparr> =
   get_checked_items \<lparr>checked = [[(''name'', JStr ''id1'')], [(''name'', JStr ''id2'')]]\<rparr>
   \<and> map (\<lambda>(m, a). obj_get a ''lead_names'')
       (remote_calls (submit_effects
          \<lparr>checked = [[(''name'', JStr ''id1'')], [(''name'', JStr ''id2'')]]\<rparr>
          \<lparr>checked = []\<rparr>
          [(''segmentname'', JStr ''seg1'')])) =
     map (\<lambda>(m, a). obj_get a ''lead_names'')
       (remote_calls (submit_effects
          \<lparr>checked = [[(''name'', JStr ''id1'')], [(''name'', JStr ''id2'')]]\<rparr>
          \<lparr>checked = [[(''name'', JStr ''id3'')]]\<rparr>
          [(''segmentname'', JStr ''seg2''), (''description'', JStr ''other'')]))
   \<and> map (\<lambda>(m, a). obj_get a ''lead_names'')
       (remote_calls (submit_effects
          \<lparr>checked = [[(''name'', JStr ''id1'')], [(''name'', JStr ''id2'')]]\<rparr>
          \<lparr>checked = [[(''name'', JStr ''id3'')]]\<rparr>
          [(''segmentname'', JStr ''seg2''), (''description'', JStr ''other'')])) =
     [JArr [JStr ''id1'', JStr ''id2'']]"
  using selection_captured_at_click
    [of "\<lparr>checked = [[(''name'', JStr ''id1'')], [(''name'', JStr ''id2'')]]\<rparr>"
        "\<lparr>checked = [[(''name'', JStr ''id1'')], [(''name'', JStr ''id2'')]]\<rparr>"
        "\<lparr>checked = []\<rparr>" "[(''segmentname'', JStr ''seg1'')]"
        "\<lparr>checked = [[(''name'', JStr ''id3'')]]\<rparr>"
        "[(''segmentname'', JStr ''seg2''), (''description'', JStr ''other'')]"]
  by (simp add: remote_calls_submit get_checked_items_def obj_get_def)

text \<open>
  C10. The \<^verbatim>\<open>description\<close> argument of the remote call is the \<^verbatim>\<open>description\<close> field of the
  submitted form values as it stands, for every form value: nothing is checked, trimmed or
  defaulted, and a form without a description sends undefined.
\<close>

theorem description_forwarded_verbatim:
  "get_checked_items lv \<noteq> [] \<Longrightarrow>
   map (\<lambda>(m, a). obj_get a ''description'') (remote_calls (submit_effects lv lv' vals)) =
     [obj_get vals ''description'']"
  by (simp add: remote_calls_submit obj_get_def)

theorem description_forwarded_verbatim_witness:
  "get_checked_items \<lparr>checked = [[(''name'', JStr ''id1'')]]\<rparr> \<noteq> []
   \<and> map (\<lambda>(m, a). obj_get a ''description'')
       (remote_calls (submit_effects \<lparr>checked = [[(''name'', JStr ''id1'')]]\<rparr> \<lparr>checked = []\<rparr>
          [(''segmentname'', JStr ''seg1'')])) = [JUndefined]
   \<and> map (\<lambda>(m, a). obj_get a ''description'')
       (remote_calls (submit_effects \<lparr>checked = [[(''name'', JStr ''id1'')]]\<rparr> \<lparr>checked = []\<rparr>
          [(''segmentname'', JStr ''seg1''), (''description'', JStr ''  padded  '')])) =
       [JStr ''  padded  '']"
  using description_forwarded_verbatim
    [of "\<lparr>checked = [[(''name'', JStr ''id1'')]]\<rparr>" "\<lparr>checked = []\<rparr>"
        "[(''segmentname'', JStr ''seg1'')]"]
    description_forwarded_verbatim
    [of "\<lparr>checked = [[(''name'', JStr ''id1'')]]\<rparr>" "\<lparr>checked = []\<rparr>"
        "[(''segmentname'', JStr ''seg1''), (''description'', JStr ''  padded  '')]"]
  by (simp add: get_checked_items_def obj_get_def)

subsection \<open>The required segment name\<close>

lemma prompt_submit_nonempty:
  "get_checked_items lv \<noteq> [] \<Longrightarrow>
   prompt_submit (create_segment lv) lv' entries =
     (if blank (obj_get entries ''segmentname'') then Rejected
      else Submitted (on_submit (get_checked_items lv) lv' entries))"
  by (simp add: create_segment_nonempty prompt_fields_def obj_get_def)

lemma prompt_submit_filled:
  "get_checked_items lv \<noteq> [] \<Longrightarrow> \<not> blank (obj_get entries ''segmentname'') \<Longrightarrow>
   submitted_effects (prompt_submit (create_segment lv) lv' entries) =
     submit_effects lv lv' entries"
  by (simp add: prompt_submit_nonempty submit_effects_nonempty)

text \<open>
  C6. The prompt declares the field \<^verbatim>\<open>segmentname\<close> with \<^verbatim>\<open>reqd: 1\<close>. So for every submission
  of the prompt in which the segment name is blank, the form layer rejects the submission:
  the submit callback does not run and no remote call is issued.
\<close>

theorem blank_segment_name_rejected:
  "get_checked_items lv \<noteq> [] \<Longrightarrow> blank (obj_get entries ''segmentname'') \<Longrightarrow>
   prompt_submit (create_segment lv) lv' entries = Rejected
   \<and> remote_calls (submitted_effects (prompt_submit (create_segment lv) lv' entries)) = []"
  by (simp add: prompt_submit_nonempty)

theorem blank_segment_name_rejected_witness:
  "get_checked_items \<lparr>checked = [[(''name'', JStr ''id1'')]]\<rparr> \<noteq> []
   \<and> blank (obj_get [(''description'', JStr ''Test Segment'')] ''segmentname'')
   \<and> prompt_submit (create_segment \<lparr>checked = [[(''name'', JStr ''id1'')]]\<rparr>)
        \<lparr>checked = [[(''name'', JStr ''id1'')]]\<rparr> [(''description'', JStr ''Test Segment'')] = Rejected
   \<and> remote_calls (submitted_effects
        (prompt_submit (create_segment \<lparr>checked = [[(''name'', JStr ''id1'')]]\<rparr>)
           \<lparr>checked = [[(''name'', JStr ''id1'')]]\<rparr> [(''description'', JStr ''Test Segment'')])) = []"
  using blank_segment_name_rejected
    [of "\<lparr>checked = [[(''name'', JStr ''id1'')]]\<rparr>" "[(''description'', JStr ''Test Segment'')]"
        "\<lparr>checked = [[(''name'', JStr ''id1'')]]\<rparr>"]
  by (simp add: get_checked_items_def obj_get_def blank_def)

end
